theory Spec2Isabelle
  imports Complex_Main "HOL-Library.AList"
begin

section \<open>Documents of the booking collection\<close>

text \<open>
  The controllers in \<^verbatim>\<open>backend/controllers/bookings.js\<close> read and write documents of a
  document store. A document is a list of fields; a field holds an ObjectId, a date
  (milliseconds since the epoch, as \<^verbatim>\<open>Date.getTime()\<close> gives them), a number (\<open>VNaN\<close> is JavaScript's
  \<^verbatim>\<open>NaN\<close>), a string or \<^verbatim>\<open>null\<close>. Amounts are exact rationals: the rounding of
  JavaScript's doubles is not modelled.
\<close>

datatype val = VId string | VDate int | VNum rat | VNaN | VStr string | VNull

type_synonym doc = "(string \<times> val) list"

definition field :: "doc \<Rightarrow> string \<Rightarrow> val option" where
  "field d k = map_of d k"

subsection \<open>The filters the controllers pass to \<^verbatim>\<open>Booking.find\<close>\<close>

text \<open>
  A filter is a conjunction of clauses. A clause constrains one field by a list of
  operators, or is an \<^verbatim>\<open>$or\<close> of conjunctions of such constraints. The operand of a range
  operator is a date, as it is in every range condition of the controllers. The store
  compares a range operator only against a field that is present and holds a date; a
  document that lacks the field does not satisfy the condition.
\<close>

datatype cond = Eq val | Ne val | In "val list" | Lt int | Lte int | Gt int | Gte int

type_synonym constraint = "string \<times> cond list"

datatype clause = Field string "cond list" | Or "constraint list list"

fun holds :: "cond \<Rightarrow> val option \<Rightarrow> bool" where
  "holds (Eq v) f = (f = Some v)"
| "holds (Ne v) f =
     (if v = VNull then (case f of None \<Rightarrow> False | Some w \<Rightarrow> w \<noteq> VNull) else f \<noteq> Some v)"
| "holds (In vs) f = (case f of None \<Rightarrow> VNull \<in> set vs | Some w \<Rightarrow> w \<in> set vs)"
| "holds (Lt b) f = (case f of Some (VDate a) \<Rightarrow> a < b | _ \<Rightarrow> False)"
| "holds (Lte b) f = (case f of Some (VDate a) \<Rightarrow> a \<le> b | _ \<Rightarrow> False)"
| "holds (Gt b) f = (case f of Some (VDate a) \<Rightarrow> a > b | _ \<Rightarrow> False)"
| "holds (Gte b) f = (case f of Some (VDate a) \<Rightarrow> a \<ge> b | _ \<Rightarrow> False)"

definition matches_constraint :: "doc \<Rightarrow> constraint \<Rightarrow> bool" where
  "matches_constraint d c = list_all (\<lambda>op. holds op (field d (fst c))) (snd c)"

definition matches_all :: "doc \<Rightarrow> constraint list \<Rightarrow> bool" where
  "matches_all d cs = list_all (matches_constraint d) cs"

fun matches_clause :: "doc \<Rightarrow> clause \<Rightarrow> bool" where
  "matches_clause d (Field k ops) = matches_constraint d (k, ops)"
| "matches_clause d (Or alts) = list_ex (matches_all d) alts"

definition matches :: "doc \<Rightarrow> clause list \<Rightarrow> bool" where
  "matches d q = list_all (matches_clause d) q"

definition find_docs :: "clause list \<Rightarrow> doc list \<Rightarrow> doc list" where
  "find_docs q docs = filter (\<lambda>d. matches d q) docs"

subsection \<open>The availability query\<close>

text \<open>
  The three alternatives of the \<^verbatim>\<open>$or\<close> in \<^verbatim>\<open>createBooking\<close> (lines 170 to 174) and in
  \<^verbatim>\<open>updateBooking\<close> (lines 254 to 258), on the keys \<^verbatim>\<open>startDate\<close> and \<^verbatim>\<open>endDate\<close>.
\<close>

definition overlap_or :: "int \<Rightarrow> int \<Rightarrow> constraint list list" where
  "overlap_or start end' =
     [ [(''startDate'', [Lt end', Gte start])],
       [(''endDate'', [Gt start, Lte end'])],
       [(''startDate'', [Lte start]), (''endDate'', [Gte end'])] ]"

text \<open>
  The whole filter. \<open>excl\<close> is the operand of \<^verbatim>\<open>_id: { $ne: ... }\<close>: \<^verbatim>\<open>null\<close> in
  \<^verbatim>\<open>createBooking\<close>, the id of the booking under update in \<^verbatim>\<open>updateBooking\<close>.
\<close>

definition overlap_query :: "val \<Rightarrow> string \<Rightarrow> int \<Rightarrow> int \<Rightarrow> clause list" where
  "overlap_query excl carId start end' =
     [ Field ''_id'' [Ne excl],
       Field ''car'' [Eq (VId carId)],
       Field ''booking_status'' [In [VStr ''confirmed'', VStr ''active'']],
       Or (overlap_or start end') ]"

text \<open>
  The overlap test of two half-open intervals as the specification's glossary words it:
  \<open>[s1, e1)\<close> and \<open>[s2, e2)\<close> overlap iff \<open>s1 < e2\<close> and \<open>s2 < e1\<close>.
\<close>

definition half_open_overlap :: "int \<Rightarrow> int \<Rightarrow> int \<Rightarrow> int \<Rightarrow> bool" where
  "half_open_overlap s1 e1 s2 e2 = (s1 < e2 \<and> s2 < e1)"


section \<open>Collections, requests and errors\<close>

text \<open>
  Of a car the controllers read \<^verbatim>\<open>make\<close>, \<^verbatim>\<open>model\<close> and \<^verbatim>\<open>daily_rate\<close> (the record
  package keeps the name \<open>make\<close> for itself, hence \<open>car_make\<close>); of users and locations
  only whether \<^verbatim>\<open>findById\<close> finds them.
\<close>

record car_doc =
  car_make :: string
  car_model :: string
  daily_rate :: rat

record db =
  users :: "string list"
  cars :: "(string \<times> car_doc) list"
  locations :: "string list"
  bookings :: "doc list"

text \<open>
  What a request reads from outside the store: \<^verbatim>\<open>Date.now()\<close>, the local midnight
  \<^verbatim>\<open>new Date().setHours(0,0,0,0)\<close>, and the ObjectId the driver gives a new document.
\<close>

record env =
  now :: int
  today :: int
  new_id :: string

text \<open>\<^verbatim>\<open>req.user\<close>, set by the \<^verbatim>\<open>protect\<close> middleware.\<close>

record req_user =
  user_id :: string
  role :: string

text \<open>
  \<^verbatim>\<open>req.body\<close>. An id or status is \<open>None\<close> when the key is absent. A date field holds
  what \<^verbatim>\<open>new Date(...)\<close> makes of the submitted text: \<open>None\<close> when the text is absent or
  empty, \<open>InvalidDate\<close> when \<^verbatim>\<open>getTime()\<close> is \<^verbatim>\<open>NaN\<close>. \<^verbatim>\<open>total_cost\<close> holds what
  \<^verbatim>\<open>parseFloat\<close> has to read: \<open>Number r\<close> is a number or a text that parses to \<open>r\<close>,
  \<open>NotNumeric\<close> any other value.
\<close>

datatype jsdate = InvalidDate | Date int

datatype jscost = Undefined | Null | EmptyString | Number rat | NotNumeric

record body =
  user :: "string option"
  car :: "string option"
  startDate :: "jsdate option"
  endDate :: "jsdate option"
  pickupLocation :: "string option"
  dropoffLocation :: "string option"
  total_cost :: jscost
  booking_status :: "string option"

text \<open>
  \<open>ErrorResponse message statusCode\<close> is the class of \<^verbatim>\<open>utils/errorResponse\<close>. The other
  errors are raised below the controllers: \<open>SchemaError path\<close> when a value does not
  fit \<^verbatim>\<open>BookingSchema\<close> at \<open>path\<close>, \<open>DuplicateKey\<close> when an \<^verbatim>\<open>_id\<close> is taken,
  \<open>TypeError\<close> when a property of \<^verbatim>\<open>undefined\<close> is read, \<open>NoRoute\<close> when no route of
  the router matches the request.
\<close>

datatype error = ErrorResponse string nat | SchemaError string | DuplicateKey string | TypeError | NoRoute

fun statusCode :: "error \<Rightarrow> nat option" where
  "statusCode (ErrorResponse m c) = Some c"
| "statusCode _ = None"

fun message :: "error \<Rightarrow> string" where
  "message (ErrorResponse m c) = m"
| "message _ = []"

text \<open>JavaScript truthiness of a text: absent and empty are falsy.\<close>

fun truthy :: "string option \<Rightarrow> string option" where
  "truthy None = None"
| "truthy (Some s) = (if s = [] then None else Some s)"

fun parseFloat :: "jscost \<Rightarrow> val" where
  "parseFloat (Number r) = VNum r"
| "parseFloat _ = VNaN"

section \<open>\<^verbatim>\<open>BookingSchema\<close> (\<^verbatim>\<open>models/Booking.js\<close>)\<close>

definition booking_status_enum :: "string list" where
  "booking_status_enum = [''pending_payment'', ''confirmed'', ''active'', ''completed'', ''cancelled'']"

definition required_paths :: "string list" where
  "required_paths =
     [''user'', ''car'', ''start_date'', ''end_date'', ''total_cost'', ''pickup_location'', ''dropoff_location'']"

definition schema_paths :: "string list" where
  "schema_paths =
     [''_id'', ''user'', ''car'', ''start_date'', ''end_date'', ''total_cost'', ''booking_status'',
      ''pickup_location'', ''dropoff_location'', ''createdAt'']"

text \<open>
  The schema is declared without options, so the object mapper's default strict mode
  applies: a key that is not a path of the schema is not written.
\<close>

definition strict :: "doc \<Rightarrow> doc" where
  "strict d = filter (\<lambda>kv. fst kv \<in> set schema_paths) d"

text \<open>A required path fails when it is absent, \<^verbatim>\<open>null\<close>, or a number that is \<^verbatim>\<open>NaN\<close>.\<close>

fun unusable :: "val option \<Rightarrow> bool" where
  "unusable None = True"
| "unusable (Some VNull) = True"
| "unusable (Some VNaN) = True"
| "unusable (Some v) = False"

fun enum_ok :: "val option \<Rightarrow> bool" where
  "enum_ok None = True"
| "enum_ok (Some (VStr s)) = (s \<in> set booking_status_enum)"
| "enum_ok (Some v) = False"

text \<open>The paths of a whole document that fail validation, in the schema's order.\<close>

definition invalid_paths :: "doc \<Rightarrow> string list" where
  "invalid_paths d =
     filter (\<lambda>k. unusable (field d k)) required_paths
     @ (if enum_ok (field d ''booking_status'') then [] else [''booking_status''])"

text \<open>
  The paths of an update that fail: the cast of \<^verbatim>\<open>total_cost\<close> to a number, and with
  \<^verbatim>\<open>runValidators\<close> the enum of \<^verbatim>\<open>booking_status\<close>.
\<close>

definition invalid_update_paths :: "doc \<Rightarrow> string list" where
  "invalid_update_paths upd =
     (if field upd ''total_cost'' = Some VNaN then [''total_cost''] else [])
     @ (if enum_ok (field upd ''booking_status'') then [] else [''booking_status''])"

text \<open>
  A document that fits the schema: every required path holds a value of the path's
  type, the status is one of the enum, and the document has its \<^verbatim>\<open>_id\<close>.
\<close>

fun is_id :: "val option \<Rightarrow> bool" where
  "is_id (Some (VId i)) = True"
| "is_id v = False"

fun is_date :: "val option \<Rightarrow> bool" where
  "is_date (Some (VDate t)) = True"
| "is_date v = False"

fun is_num :: "val option \<Rightarrow> bool" where
  "is_num (Some (VNum r)) = True"
| "is_num v = False"

fun is_status :: "val option \<Rightarrow> bool" where
  "is_status (Some (VStr s)) = (s \<in> set booking_status_enum)"
| "is_status v = False"

definition conforms :: "doc \<Rightarrow> bool" where
  "conforms d =
     (is_id (field d ''_id'') \<and> is_id (field d ''user'') \<and> is_id (field d ''car'')
      \<and> is_date (field d ''start_date'') \<and> is_date (field d ''end_date'')
      \<and> is_num (field d ''total_cost'') \<and> is_status (field d ''booking_status'')
      \<and> is_id (field d ''pickup_location'') \<and> is_id (field d ''dropoff_location''))"

section \<open>The model's methods\<close>

text \<open>
  Every id a request carries is taken to be a well-formed ObjectId, so \<^verbatim>\<open>findById\<close>
  finds the document or gives \<^verbatim>\<open>null\<close>.
\<close>

definition has_id :: "string \<Rightarrow> doc \<Rightarrow> bool" where
  "has_id i d = (field d ''_id'' = Some (VId i))"

definition findById :: "doc list \<Rightarrow> string \<Rightarrow> doc option" where
  "findById docs i = find (has_id i) docs"

text \<open>
  \<^verbatim>\<open>Booking.create(data)\<close>: strict mode, validation, the default of \<^verbatim>\<open>createdAt\<close>, the
  new \<^verbatim>\<open>_id\<close>; the store refuses an \<^verbatim>\<open>_id\<close> it already holds.
\<close>

definition Booking_create :: "env \<Rightarrow> doc list \<Rightarrow> doc \<Rightarrow> error + (doc list \<times> doc)" where
  "Booking_create env docs data =
     (let d = (''_id'', VId (new_id env)) # strict data @ [(''createdAt'', VDate (now env))] in
      case invalid_paths d of
        p # ps \<Rightarrow> Inl (SchemaError p)
      | [] \<Rightarrow>
          if list_ex (has_id (new_id env)) docs then Inl (DuplicateKey ''_id'')
          else Inr (docs @ [d], d))"

text \<open>Writing the fields of \<open>upd\<close> into a document, in order (\<^verbatim>\<open>$set\<close>).\<close>

fun set_fields :: "doc \<Rightarrow> doc \<Rightarrow> doc" where
  "set_fields [] d = d"
| "set_fields (kv # upd) d = set_fields upd (AList.update (fst kv) (snd kv) d)"

definition replace_doc :: "string \<Rightarrow> doc \<Rightarrow> doc list \<Rightarrow> doc list" where
  "replace_doc i d' docs = map (\<lambda>d. if has_id i d then d' else d) docs"

text \<open>
  \<^verbatim>\<open>Booking.findByIdAndUpdate(id, updateData, {new: true, runValidators: true})\<close>: the
  updated document, or \<^verbatim>\<open>null\<close> when no document has the id.
\<close>

definition Booking_findByIdAndUpdate ::
    "doc list \<Rightarrow> string \<Rightarrow> doc \<Rightarrow> error + (doc list \<times> doc option)" where
  "Booking_findByIdAndUpdate docs i updateData =
     (let upd = strict updateData in
      case invalid_update_paths upd of
        p # ps \<Rightarrow> Inl (SchemaError p)
      | [] \<Rightarrow>
          (case findById docs i of
             None \<Rightarrow> Inr (docs, None)
           | Some d \<Rightarrow> (let d' = set_fields upd d in Inr (replace_doc i d' docs, Some d'))))"

text \<open>\<^verbatim>\<open>booking.save()\<close> of a loaded and modified document, identified by \<open>i\<close>.\<close>

definition Booking_save :: "doc list \<Rightarrow> string \<Rightarrow> doc \<Rightarrow> error + doc list" where
  "Booking_save docs i d =
     (case invalid_paths d of
        p # ps \<Rightarrow> Inl (SchemaError p)
      | [] \<Rightarrow> Inr (replace_doc i d docs))"

definition Booking_deleteOne :: "doc list \<Rightarrow> string \<Rightarrow> doc list" where
  "Booking_deleteOne docs i = filter (\<lambda>d. field d ''_id'' \<noteq> Some (VId i)) docs"

section \<open>The controllers (\<^verbatim>\<open>controllers/bookings.js\<close>)\<close>

text \<open>
  The existence checks of \<^verbatim>\<open>createBooking\<close> (lines 134 to 149) and of \<^verbatim>\<open>updateBooking\<close>
  (lines 230 to 237), in the order of the source; they give the car.
\<close>

definition check_resources ::
    "db \<Rightarrow> string \<Rightarrow> string \<Rightarrow> string \<Rightarrow> string \<Rightarrow> error + car_doc" where
  "check_resources db userId carId pickupLocationId dropoffLocationId =
     (if userId \<notin> set (users db) then
        Inl (ErrorResponse (''User not found with id '' @ userId) 404)
      else case map_of (cars db) carId of
        None \<Rightarrow> Inl (ErrorResponse (''Car not found with id '' @ carId) 404)
      | Some c \<Rightarrow>
          if pickupLocationId \<notin> set (locations db) then
            Inl (ErrorResponse (''Pickup location not found with id '' @ pickupLocationId) 404)
          else if dropoffLocationId \<notin> set (locations db) then
            Inl (ErrorResponse (''Dropoff location not found with id '' @ dropoffLocationId) 404)
          else Inr c)"

text \<open>The date validation both controllers share (lines 152 to 159 and 240 to 247).\<close>

fun date_validation :: "jsdate \<Rightarrow> jsdate \<Rightarrow> error + (int \<times> int)" where
  "date_validation (Date start) (Date end') =
     (if start \<ge> end' then Inl (ErrorResponse ''Start date must be before end date'' 400)
      else Inr (start, end'))"
| "date_validation s e = Inl (ErrorResponse ''Invalid date format provided'' 400)"

text \<open>\<^verbatim>\<open>Math.max(1, Math.ceil((end - start) / (1000 * 60 * 60 * 24)))\<close>\<close>

definition durationDays :: "int \<Rightarrow> int \<Rightarrow> int" where
  "durationDays start end' = max 1 \<lceil>(of_int (end' - start) :: rat) / (1000 * 60 * 60 * 24)\<rceil>"

definition not_available :: "car_doc \<Rightarrow> error" where
  "not_available c =
     ErrorResponse (''Car '' @ car_make c @ '' '' @ car_model c @ '' is not available for the selected dates'') 400"

definition createBooking :: "env \<Rightarrow> db \<Rightarrow> req_user \<Rightarrow> body \<Rightarrow> error + (db \<times> doc)" where
  "createBooking env db u b =
     (case (truthy (if role u = ''admin'' then user b else Some (user_id u)), truthy (car b),
            startDate b, endDate b, truthy (pickupLocation b), truthy (dropoffLocation b)) of
        (Some userId, Some carId, Some sd, Some ed, Some pickupLocationId, Some dropoffLocationId) \<Rightarrow>
          (case check_resources db userId carId pickupLocationId dropoffLocationId of
             Inl err \<Rightarrow> Inl err
           | Inr c \<Rightarrow>
               (case date_validation sd ed of
                  Inl err \<Rightarrow> Inl err
                | Inr (start, end') \<Rightarrow>
                    if start < today env \<and> role u \<noteq> ''admin'' then
                      Inl (ErrorResponse ''Start date cannot be in the past for customer bookings'' 400)
                    else if find_docs (overlap_query VNull carId start end') (bookings db) \<noteq> [] then
                      Inl (not_available c)
                    else
                      (let totalCost =
                             (if role u = ''admin'' \<and> total_cost b \<noteq> Undefined
                              then parseFloat (total_cost b)
                              else VNum (of_int (durationDays start end') * daily_rate c));
                           status =
                             (case (if role u = ''admin'' then truthy (booking_status b) else None) of
                                Some st \<Rightarrow> st
                              | None \<Rightarrow> ''pending_payment'')
                       in case Booking_create env (bookings db)
                                 [(''user'', VId userId),
                                  (''car'', VId carId),
                                  (''start_date'', VDate start),
                                  (''end_date'', VDate end'),
                                  (''total_cost'', totalCost),
                                  (''pickup_location'', VId pickupLocationId),
                                  (''dropoff_location'', VId dropoffLocationId),
                                  (''booking_status'', VStr status)] of
                            Inl err \<Rightarrow> Inl err
                          | Inr (docs, booking) \<Rightarrow> Inr (db\<lparr>bookings := docs\<rparr>, booking))))
      | _ \<Rightarrow>
          Inl (ErrorResponse ''Missing required booking information (User, Car, Dates, Locations)'' 400))"

text \<open>
  \<^verbatim>\<open>updateBooking\<close>. The update data carries the dates under \<^verbatim>\<open>startDate\<close> and
  \<^verbatim>\<open>endDate\<close>, as line 276 and 277 of the source write them.
\<close>

definition updateBooking :: "db \<Rightarrow> string \<Rightarrow> body \<Rightarrow> error + (db \<times> doc option)" where
  "updateBooking db bookingId b =
     (case findById (bookings db) bookingId of
        None \<Rightarrow> Inl (ErrorResponse (''Booking not found with id of '' @ bookingId) 404)
      | Some booking \<Rightarrow>
     (case (truthy (user b), truthy (car b), startDate b, endDate b,
            truthy (pickupLocation b), truthy (dropoffLocation b), truthy (booking_status b)) of
        (Some userId, Some carId, Some sd, Some ed, Some pickupLocationId, Some dropoffLocationId,
         Some status) \<Rightarrow>
          (case check_resources db userId carId pickupLocationId dropoffLocationId of
             Inl err \<Rightarrow> Inl err
           | Inr c \<Rightarrow>
               (case date_validation sd ed of
                  Inl err \<Rightarrow> Inl err
                | Inr (start, end') \<Rightarrow>
                    if find_docs (overlap_query (VId bookingId) carId start end') (bookings db) \<noteq> [] then
                      Inl (not_available c)
                    else
                      (let calculatedCost = VNum (of_int (durationDays start end') * daily_rate c);
                           finalCost =
                             (if total_cost b = Undefined \<or> total_cost b = Null \<or> total_cost b = EmptyString
                              then calculatedCost
                              else parseFloat (total_cost b))
                       in case Booking_findByIdAndUpdate (bookings db) bookingId
                                 [(''user'', VId userId),
                                  (''car'', VId carId),
                                  (''startDate'', VDate start),
                                  (''endDate'', VDate end'),
                                  (''pickup_location'', VId pickupLocationId),
                                  (''dropoff_location'', VId dropoffLocationId),
                                  (''booking_status'', VStr status),
                                  (''total_cost'', finalCost)] of
                            Inl err \<Rightarrow> Inl err
                          | Inr (docs, updated) \<Rightarrow> Inr (db\<lparr>bookings := docs\<rparr>, updated))))
      | _ \<Rightarrow>
          Inl (ErrorResponse
                 ''Missing required booking information (User, Car, Dates, Locations, Status)'' 400)))"

definition deleteBooking :: "db \<Rightarrow> string \<Rightarrow> error + db" where
  "deleteBooking db bookingId =
     (case findById (bookings db) bookingId of
        None \<Rightarrow> Inl (ErrorResponse (''Booking not found with id of '' @ bookingId) 404)
      | Some booking \<Rightarrow> Inr (db\<lparr>bookings := Booking_deleteOne (bookings db) bookingId\<rparr>))"

text \<open>
  \<^verbatim>\<open>confirmBookingPayment\<close>. A stored document is read as it is stored: a missing
  \<^verbatim>\<open>user\<close> makes \<^verbatim>\<open>booking.user.toString()\<close> throw, a missing status prints as
  \<^verbatim>\<open>undefined\<close>.
\<close>

fun status_text :: "val option \<Rightarrow> string" where
  "status_text (Some (VStr s)) = s"
| "status_text v = ''undefined''"

definition cannot_confirm :: "string \<Rightarrow> string" where
  "cannot_confirm st =
     ''Booking status is already '' @ [CHR 0x27] @ st @ [CHR 0x27] @ '', cannot confirm payment.''"

definition confirmBookingPayment :: "db \<Rightarrow> req_user \<Rightarrow> string \<Rightarrow> error + (db \<times> doc)" where
  "confirmBookingPayment db u bookingId =
     (case findById (bookings db) bookingId of
        None \<Rightarrow> Inl (ErrorResponse (''Booking not found with id of '' @ bookingId) 404)
      | Some booking \<Rightarrow>
          (case field booking ''user'' of
             None \<Rightarrow> Inl TypeError
           | Some owner \<Rightarrow>
               if owner \<noteq> VId (user_id u) \<and> role u \<noteq> ''admin'' then
                 Inl (ErrorResponse ''Not authorized to update this booking'' 401)
               else if field booking ''booking_status'' \<noteq> Some (VStr ''pending_payment'') then
                 Inl (ErrorResponse (cannot_confirm (status_text (field booking ''booking_status''))) 400)
               else
                 (let booking' = AList.update ''booking_status'' (VStr ''confirmed'') booking
                  in case Booking_save (bookings db) bookingId booking' of
                       Inl err \<Rightarrow> Inl err
                     | Inr docs \<Rightarrow> Inr (db\<lparr>bookings := docs\<rparr>, booking'))))"

text \<open>The collection after a call: an error leaves it as it was.\<close>

definition bookings_after :: "db \<Rightarrow> error + (db \<times> 'a) \<Rightarrow> doc list" where
  "bookings_after db r = (case r of Inl err \<Rightarrow> bookings db | Inr (db', x) \<Rightarrow> bookings db')"

section \<open>The router (\<^verbatim>\<open>routes/bookings.js\<close>)\<close>

text \<open>
  The router is mounted at \<^verbatim>\<open>/api/v1/bookings\<close>; a path is the list of the segments
  after the mount point. Every route runs behind \<^verbatim>\<open>protect\<close>, so a request carries its
  \<^verbatim>\<open>req.user\<close>. A route is the handler, whether \<^verbatim>\<open>authorize('admin')\<close> guards it, and
  the \<^verbatim>\<open>:id\<close> parameter. The router compares the fixed segment without regard to case, and
  serves \<^verbatim>\<open>HEAD\<close> by the handler of \<^verbatim>\<open>GET\<close>.
\<close>

datatype http_method = GET | HEAD | POST | PUT | PATCH | DELETE

datatype handler =
  CreateBooking | GetBookings | ConfirmBookingPayment | GetBooking | UpdateBooking | DeleteBooking

datatype route = Route handler bool "string option"

definition lower_char :: "char \<Rightarrow> char" where
  "lower_char c =
     (if 65 \<le> (of_char c :: nat) \<and> (of_char c :: nat) \<le> 90 then char_of (of_char c + 32 :: nat) else c)"

fun bookings_router :: "http_method \<Rightarrow> string list \<Rightarrow> route option" where
  "bookings_router m [] =
     (if m = POST then Some (Route CreateBooking False None)
      else if m = GET \<or> m = HEAD then Some (Route GetBookings False None)
      else None)"
| "bookings_router m [i, seg] =
     (if map lower_char seg = ''confirm-payment'' \<and> m = POST
      then Some (Route ConfirmBookingPayment False (Some i))
      else None)"
| "bookings_router m [i] =
     (if m = GET \<or> m = HEAD then Some (Route GetBooking False (Some i))
      else if m = PUT then Some (Route UpdateBooking True (Some i))
      else if m = DELETE then Some (Route DeleteBooking True (Some i))
      else None)"
| "bookings_router m path = None"

text \<open>
  The store after a request to the router. A request that matches no route, or that
  \<^verbatim>\<open>authorize\<close> refuses, reaches no controller; the two \<^verbatim>\<open>GET\<close> handlers only read.
\<close>

definition store_after :: "env \<Rightarrow> db \<Rightarrow> req_user \<Rightarrow> http_method \<Rightarrow> string list \<Rightarrow> body \<Rightarrow> db" where
  "store_after env db u m path b =
     (case bookings_router m path of
        None \<Rightarrow> db
      | Some (Route h adminOnly param) \<Rightarrow>
          if adminOnly \<and> role u \<noteq> ''admin'' then db
          else (case (h, param) of
              (CreateBooking, x) \<Rightarrow>
                (case createBooking env db u b of Inl err \<Rightarrow> db | Inr (db', d) \<Rightarrow> db')
            | (ConfirmBookingPayment, Some i) \<Rightarrow>
                (case confirmBookingPayment db u i of Inl err \<Rightarrow> db | Inr (db', d) \<Rightarrow> db')
            | (UpdateBooking, Some i) \<Rightarrow>
                (case updateBooking db i b of Inl err \<Rightarrow> db | Inr (db', d) \<Rightarrow> db')
            | (DeleteBooking, Some i) \<Rightarrow>
                (case deleteBooking db i of Inl err \<Rightarrow> db | Inr db' \<Rightarrow> db')
            | (x, y) \<Rightarrow> db))"

section \<open>The invariants of the specification, on stored documents\<close>

text \<open>
  A stored booking holds its range under the schema's paths \<^verbatim>\<open>start_date\<close> and
  \<^verbatim>\<open>end_date\<close>. Two bookings are compatible unless they are on the same car, both
  \<^verbatim>\<open>confirmed\<close> or \<^verbatim>\<open>active\<close>, and neither starts at or after the end of the other.
\<close>

definition blocking :: "doc \<Rightarrow> bool" where
  "blocking d =
     (field d ''booking_status'' = Some (VStr ''confirmed'')
      \<or> field d ''booking_status'' = Some (VStr ''active''))"

definition disjoint_ranges :: "doc \<Rightarrow> doc \<Rightarrow> bool" where
  "disjoint_ranges A B =
     (case (field A ''start_date'', field A ''end_date'', field B ''start_date'', field B ''end_date'') of
        (Some (VDate s1), Some (VDate e1), Some (VDate s2), Some (VDate e2)) \<Rightarrow> s1 \<ge> e2 \<or> s2 \<ge> e1
      | _ \<Rightarrow> True)"

definition compatible :: "doc \<Rightarrow> doc \<Rightarrow> bool" where
  "compatible A B =
     (if field A ''car'' = field B ''car'' \<and> blocking A \<and> blocking B then disjoint_ranges A B else True)"

fun no_double_booking :: "doc list \<Rightarrow> bool" where
  "no_double_booking [] = True"
| "no_double_booking (d # ds) = (list_all (compatible d) ds \<and> no_double_booking ds)"

section \<open>A small fleet for the examples\<close>

text \<open>Midnight UTC of the day \<open>n\<close> days after the epoch; 2024-01-01 is day 19723.\<close>

definition day :: "int \<Rightarrow> int" where
  "day n = n * 86400000"

definition fleet :: db where
  "fleet =
     \<lparr>users = [''u1'', ''u2'', ''a1''],
      cars = [(''c1'', \<lparr>car_make = ''Chevrolet'', car_model = ''Bolt EV'', daily_rate = 50\<rparr>)],
      locations = [''l1''],
      bookings = []\<rparr>"

definition customer :: req_user where
  "customer = \<lparr>user_id = ''u1'', role = ''customer''\<rparr>"

definition admin :: req_user where
  "admin = \<lparr>user_id = ''a1'', role = ''admin''\<rparr>"

definition at_2023_12_09 :: "string \<Rightarrow> env" where
  "at_2023_12_09 i = \<lparr>now = day 19700, today = day 19700, new_id = i\<rparr>"

text \<open>A request for car \<^verbatim>\<open>c1\<close> from day \<open>s\<close> to day \<open>e\<close>.\<close>

definition request :: "string option \<Rightarrow> string \<Rightarrow> int \<Rightarrow> int \<Rightarrow> jscost \<Rightarrow> string option \<Rightarrow> body" where
  "request uo c s e cost st =
     \<lparr>user = uo, car = Some c, startDate = Some (Date (day s)), endDate = Some (Date (day e)),
      pickupLocation = Some ''l1'', dropoffLocation = Some ''l1'', total_cost = cost,
      booking_status = st\<rparr>"

text \<open>The document \<^verbatim>\<open>createBooking\<close> writes for user \<^verbatim>\<open>u1\<close>, car \<^verbatim>\<open>c1\<close>.\<close>

definition stored :: "string \<Rightarrow> int \<Rightarrow> int \<Rightarrow> rat \<Rightarrow> string \<Rightarrow> doc" where
  "stored i s e cost st =
     [(''_id'', VId i), (''user'', VId ''u1''), (''car'', VId ''c1''),
      (''start_date'', VDate (day s)), (''end_date'', VDate (day e)),
      (''total_cost'', VNum cost), (''pickup_location'', VId ''l1''),
      (''dropoff_location'', VId ''l1''), (''booking_status'', VStr st),
      (''createdAt'', VDate (day 19700))]"

text \<open>
  A document that carries its range under the keys the availability filter reads. The
  controllers write no such document, but the collection can hold one.
\<close>

definition keyed :: "string \<Rightarrow> int \<Rightarrow> int \<Rightarrow> string \<Rightarrow> doc" where
  "keyed i s e st =
     [(''_id'', VId i), (''user'', VId ''u1''), (''car'', VId ''c1''),
      (''start_date'', VDate (day s)), (''end_date'', VDate (day e)),
      (''startDate'', VDate (day s)), (''endDate'', VDate (day e)),
      (''total_cost'', VNum 250), (''pickup_location'', VId ''l1''),
      (''dropoff_location'', VId ''l1''), (''booking_status'', VStr st)]"

section \<open>The availability query against the half-open test\<close>

lemma overlap_or_on_dates:
  assumes "field d ''startDate'' = Some (VDate s)" and "field d ''endDate'' = Some (VDate e)"
  shows "list_ex (matches_all d) (overlap_or start end') =
           ((s < end' \<and> s \<ge> start) \<or> (e > start \<and> e \<le> end') \<or> (s \<le> start \<and> e \<ge> end'))"
  using assms by (simp add: overlap_or_def matches_all_def matches_constraint_def)

text \<open>
  Claim C10. On a stored range with \<open>s < e\<close> and a requested range with
  \<open>start < end\<close>, the three-way \<^verbatim>\<open>$or\<close> of the source, evaluated on a document that
  carries the range under \<^verbatim>\<open>startDate\<close> and \<^verbatim>\<open>endDate\<close>, is equivalent to the single
  half-open test \<open>s < end \<and> e > start\<close>.
\<close>

theorem overlap_or_iff_half_open:
  assumes "field d ''startDate'' = Some (VDate s)" and "field d ''endDate'' = Some (VDate e)"
    and "s < e" and "start < end'"
  shows "matches_clause d (Or (overlap_or start end')) \<longleftrightarrow> half_open_overlap s e start end'"
proof -
  have "matches_clause d (Or (overlap_or start end')) =
          ((s < end' \<and> s \<ge> start) \<or> (e > start \<and> e \<le> end') \<or> (s \<le> start \<and> e \<ge> end'))"
    using overlap_or_on_dates [OF assms(1,2)] by simp
  also have "\<dots> = (s < end' \<and> start < e)"
    using assms(3,4) by linarith
  finally show ?thesis by (simp add: half_open_overlap_def)
qed

theorem overlap_or_iff_half_open_witness:
  "field [(''startDate'', VDate 10), (''endDate'', VDate 15)] ''startDate'' = Some (VDate 10)
   \<and> field [(''startDate'', VDate 10), (''endDate'', VDate 15)] ''endDate'' = Some (VDate 15)
   \<and> (10::int) < 15 \<and> (12::int) < 16
   \<and> matches_clause [(''startDate'', VDate 10), (''endDate'', VDate 15)] (Or (overlap_or 12 16))
   \<and> half_open_overlap 10 15 12 16"
proof -
  let ?d = "[(''startDate'', VDate 10), (''endDate'', VDate 15)]"
  have a: "field ?d ''startDate'' = Some (VDate 10)" by (simp add: field_def)
  have b: "field ?d ''endDate'' = Some (VDate 15)" by (simp add: field_def)
  have h: "half_open_overlap 10 15 12 16" by (simp add: half_open_overlap_def)
  from overlap_or_iff_half_open [OF a b, of 12 16] h
  have "matches_clause ?d (Or (overlap_or 12 16))" by simp
  with a b h show ?thesis by simp
qed

section \<open>The controllers on requests\<close>

text \<open>The definitions a concrete request unfolds through.\<close>

lemmas eval_defs = createBooking_def updateBooking_def confirmBookingPayment_def
  at_2023_12_09_def fleet_def customer_def admin_def request_def day_def stored_def keyed_def
  check_resources_def find_docs_def durationDays_def Booking_create_def
  Booking_findByIdAndUpdate_def Booking_save_def findById_def replace_doc_def
  strict_def schema_paths_def invalid_paths_def invalid_update_paths_def required_paths_def
  field_def booking_status_enum_def has_id_def overlap_query_def overlap_or_def matches_def
  matches_all_def matches_constraint_def not_available_def Let_def

subsection \<open>What a successful \<^verbatim>\<open>createBooking\<close> has checked and written\<close>

lemma createBooking_fields:
  assumes "createBooking env db u b = Inr r"
  shows "\<exists>userId carId start end' p q.
     truthy (if role u = ''admin'' then user b else Some (user_id u)) = Some userId \<and>
     truthy (car b) = Some carId \<and> startDate b = Some (Date start) \<and> endDate b = Some (Date end') \<and>
     truthy (pickupLocation b) = Some p \<and> truthy (dropoffLocation b) = Some q"
proof -
  obtain userId where 1: "truthy (if role u = ''admin'' then user b else Some (user_id u)) = Some userId"
    using assms
    by (cases "truthy (if role u = ''admin'' then user b else Some (user_id u))")
      (simp_all add: createBooking_def)
  obtain carId where 2: "truthy (car b) = Some carId"
    using assms 1 by (cases "truthy (car b)") (simp_all add: createBooking_def)
  obtain sd where 3: "startDate b = Some sd"
    using assms 1 2 by (cases "startDate b") (simp_all add: createBooking_def)
  obtain ed where 4: "endDate b = Some ed"
    using assms 1 2 3 by (cases "endDate b") (simp_all add: createBooking_def)
  obtain p where 5: "truthy (pickupLocation b) = Some p"
    using assms 1 2 3 4 by (cases "truthy (pickupLocation b)") (simp_all add: createBooking_def)
  obtain q where 6: "truthy (dropoffLocation b) = Some q"
    using assms 1 2 3 4 5 by (cases "truthy (dropoffLocation b)") (simp_all add: createBooking_def)
  have "\<exists>start end'. sd = Date start \<and> ed = Date end'"
    using assms 1 2 3 4 5 6
    by (cases sd; cases ed) (simp_all add: createBooking_def split: sum.splits)
  with 1 2 3 4 5 6 show ?thesis by blast
qed

lemma createBooking_unfold:
  assumes "truthy (if role u = ''admin'' then user b else Some (user_id u)) = Some userId"
    and "truthy (car b) = Some carId"
    and "startDate b = Some (Date start)" and "endDate b = Some (Date end')"
    and "truthy (pickupLocation b) = Some p" and "truthy (dropoffLocation b) = Some q"
  shows "createBooking env db u b =
     (case check_resources db userId carId p q of
        Inl err \<Rightarrow> Inl err
      | Inr c \<Rightarrow>
          if start \<ge> end' then Inl (ErrorResponse ''Start date must be before end date'' 400)
          else if start < today env \<and> role u \<noteq> ''admin'' then
            Inl (ErrorResponse ''Start date cannot be in the past for customer bookings'' 400)
          else if find_docs (overlap_query VNull carId start end') (bookings db) \<noteq> [] then
            Inl (not_available c)
          else
            (case Booking_create env (bookings db)
                    [(''user'', VId userId), (''car'', VId carId),
                     (''start_date'', VDate start), (''end_date'', VDate end'),
                     (''total_cost'',
                        if role u = ''admin'' \<and> total_cost b \<noteq> Undefined
                        then parseFloat (total_cost b)
                        else VNum (of_int (durationDays start end') * daily_rate c)),
                     (''pickup_location'', VId p), (''dropoff_location'', VId q),
                     (''booking_status'',
                        VStr (case (if role u = ''admin'' then truthy (booking_status b) else None) of
                                Some st \<Rightarrow> st | None \<Rightarrow> ''pending_payment''))] of
               Inl err \<Rightarrow> Inl err
             | Inr (docs, booking) \<Rightarrow> Inr (db\<lparr>bookings := docs\<rparr>, booking)))"
  by (simp add: createBooking_def assms Let_def split: sum.splits)

lemma Booking_create_InrD:
  assumes "Booking_create env docs data = Inr (docs', d)"
  shows "d = (''_id'', VId (new_id env)) # strict data @ [(''createdAt'', VDate (now env))]
         \<and> docs' = docs @ [d] \<and> invalid_paths d = []"
  using assms by (auto simp: Booking_create_def Let_def split: list.splits if_splits)

lemma createBooking_InrD:
  assumes "createBooking env db u b = Inr (db', d)"
  shows "\<exists>userId carId start end' p q c cost st.
     truthy (if role u = ''admin'' then user b else Some (user_id u)) = Some userId \<and>
     truthy (car b) = Some carId \<and> startDate b = Some (Date start) \<and> endDate b = Some (Date end') \<and>
     truthy (pickupLocation b) = Some p \<and> truthy (dropoffLocation b) = Some q \<and>
     check_resources db userId carId p q = Inr c \<and> start < end' \<and>
     cost = (if role u = ''admin'' \<and> total_cost b \<noteq> Undefined then parseFloat (total_cost b)
             else VNum (of_int (durationDays start end') * daily_rate c)) \<and>
     st = (case (if role u = ''admin'' then truthy (booking_status b) else None) of
             Some x \<Rightarrow> x | None \<Rightarrow> ''pending_payment'') \<and>
     invalid_paths d = [] \<and>
     d = [(''_id'', VId (new_id env)), (''user'', VId userId), (''car'', VId carId),
          (''start_date'', VDate start), (''end_date'', VDate end'), (''total_cost'', cost),
          (''pickup_location'', VId p), (''dropoff_location'', VId q), (''booking_status'', VStr st),
          (''createdAt'', VDate (now env))] \<and>
     db' = db\<lparr>bookings := bookings db @ [d]\<rparr>"
proof -
  from createBooking_fields [OF assms] obtain userId carId start end' p q where
    f: "truthy (if role u = ''admin'' then user b else Some (user_id u)) = Some userId"
      "truthy (car b) = Some carId" "startDate b = Some (Date start)" "endDate b = Some (Date end')"
      "truthy (pickupLocation b) = Some p" "truthy (dropoffLocation b) = Some q"
    by blast
  note unf = createBooking_unfold [OF f, of env db]
  from assms obtain c where c: "check_resources db userId carId p q = Inr c"
    by (cases "check_resources db userId carId p q") (simp_all add: unf)
  from assms have lt: "start < end'"
    by (simp add: unf c split: if_splits)
  define data where "data =
     [(''user'', VId userId), (''car'', VId carId),
      (''start_date'', VDate start), (''end_date'', VDate end'),
      (''total_cost'',
         if role u = ''admin'' \<and> total_cost b \<noteq> Undefined
         then parseFloat (total_cost b)
         else VNum (of_int (durationDays start end') * daily_rate c)),
      (''pickup_location'', VId p), (''dropoff_location'', VId q),
      (''booking_status'',
         VStr (case (if role u = ''admin'' then truthy (booking_status b) else None) of
                 Some st \<Rightarrow> st | None \<Rightarrow> ''pending_payment''))]"
  from assms have "Booking_create env (bookings db) data = Inr (bookings db', d)
      \<and> db' = db\<lparr>bookings := bookings db'\<rparr>"
    by (auto simp: unf c data_def split: if_splits sum.splits)
  then have bc: "Booking_create env (bookings db) data = Inr (bookings db', d)"
    and db': "db' = db\<lparr>bookings := bookings db'\<rparr>" by simp_all
  from Booking_create_InrD [OF bc] have
    d: "d = (''_id'', VId (new_id env)) # strict data @ [(''createdAt'', VDate (now env))]"
    and docs: "bookings db' = bookings db @ [d]" and inv: "invalid_paths d = []"
    by blast+
  have sd: "strict data = data"
    by (simp add: strict_def schema_paths_def data_def)
  from db' docs have "db' = db\<lparr>bookings := bookings db @ [d]\<rparr>" by simp
  with f c lt inv d sd show ?thesis
    unfolding data_def by simp
qed


lemma no_range_keys_no_match:
  assumes "field d ''startDate'' = None" and "field d ''endDate'' = None"
  shows "\<not> matches d (overlap_query excl carId start end')"
  using assms
  by (simp add: matches_def overlap_query_def overlap_or_def matches_all_def matches_constraint_def)

text \<open>
  Claim C3. The document \<^verbatim>\<open>createBooking\<close> inserts holds the dates of the request under
  \<^verbatim>\<open>start_date\<close> and \<^verbatim>\<open>end_date\<close> and has no \<^verbatim>\<open>startDate\<close> or \<^verbatim>\<open>endDate\<close> key, so the
  availability filter of \<^verbatim>\<open>createBooking\<close> (\<open>excl = VNull\<close>) and of \<^verbatim>\<open>updateBooking\<close>
  (\<open>excl = VId bookingId\<close>) does not match it, for any car and any requested range, and no
  later query returns it.
\<close>

theorem created_document_never_matches:
  assumes "createBooking env db u b = Inr (db', d)"
  shows "d \<in> set (bookings db') \<and> field d ''startDate'' = None \<and> field d ''endDate'' = None
     \<and> startDate b = Some (case field d ''start_date'' of Some (VDate s) \<Rightarrow> Date s | _ \<Rightarrow> InvalidDate)
     \<and> endDate b = Some (case field d ''end_date'' of Some (VDate e) \<Rightarrow> Date e | _ \<Rightarrow> InvalidDate)
     \<and> \<not> matches d (overlap_query excl carId start end')
     \<and> d \<notin> set (find_docs (overlap_query excl carId start end') docs)"
proof -
  from createBooking_InrD [OF assms] obtain userId cid s e p q c cost st where
    sd: "startDate b = Some (Date s)" and ed: "endDate b = Some (Date e)" and
    d: "d = [(''_id'', VId (new_id env)), (''user'', VId userId), (''car'', VId cid),
          (''start_date'', VDate s), (''end_date'', VDate e), (''total_cost'', cost),
          (''pickup_location'', VId p), (''dropoff_location'', VId q), (''booking_status'', VStr st),
          (''createdAt'', VDate (now env))]" and
    db': "db' = db\<lparr>bookings := bookings db @ [d]\<rparr>"
    by blast
  have k1: "field d ''startDate'' = None" and k2: "field d ''endDate'' = None"
    by (simp_all add: d field_def)
  have k3: "field d ''start_date'' = Some (VDate s)" and k4: "field d ''end_date'' = Some (VDate e)"
    by (simp_all add: d field_def)
  have nm: "\<not> matches d (overlap_query excl carId start end')"
    by (rule no_range_keys_no_match [OF k1 k2])
  have "d \<in> set (bookings db')" by (simp add: db')
  with k1 k2 k3 k4 sd ed nm show ?thesis by (simp add: find_docs_def)
qed

lemma create_confirmed_eval:
  "createBooking (at_2023_12_09 ''b1'') fleet admin
      (request (Some ''u1'') ''c1'' 19792 19797 Undefined (Some ''confirmed''))
   = Inr (fleet\<lparr>bookings := [stored ''b1'' 19792 19797 250 ''confirmed'']\<rparr>,
          stored ''b1'' 19792 19797 250 ''confirmed'')"
  by (simp add: eval_defs)

theorem created_document_never_matches_witness:
  "createBooking (at_2023_12_09 ''b1'') fleet admin
      (request (Some ''u1'') ''c1'' 19792 19797 Undefined (Some ''confirmed''))
   = Inr (fleet\<lparr>bookings := [stored ''b1'' 19792 19797 250 ''confirmed'']\<rparr>,
          stored ''b1'' 19792 19797 250 ''confirmed'')
   \<and> field (stored ''b1'' 19792 19797 250 ''confirmed'') ''startDate'' = None
   \<and> \<not> matches (stored ''b1'' 19792 19797 250 ''confirmed'')
          (overlap_query VNull ''c1'' (day 19794) (day 19798))"
  using created_document_never_matches [OF create_confirmed_eval, of VNull "''c1''" "day 19794" "day 19798" "[]"]
    create_confirmed_eval by simp

subsection \<open>Cost and status of a created booking\<close>





subsection \<open>A request whose start is not before its end\<close>

lemma check_resources_InlD:
  "check_resources db userId carId p q = Inl err \<Longrightarrow> \<exists>m. err = ErrorResponse m 404"
  by (auto simp: check_resources_def split: if_splits option.splits)


lemma create_bad_order_eval:
  "createBooking (at_2023_12_09 ''b1'') fleet customer
      (request None ''c1'' 19725 19723 Undefined None)
   = Inl (ErrorResponse ''Start date must be before end date'' 400)"
  by (simp add: eval_defs)




subsection \<open>What \<^verbatim>\<open>updateBooking\<close> has checked when it writes or reports a conflict\<close>

lemma updateBooking_fields:
  assumes "updateBooking db i b = R" and "(\<exists>r. R = Inr r) \<or> (\<exists>c. R = Inl (not_available c))"
  shows "\<exists>booking userId carId start end' p q status.
     findById (bookings db) i = Some booking \<and>
     truthy (user b) = Some userId \<and> truthy (car b) = Some carId \<and>
     startDate b = Some (Date start) \<and> endDate b = Some (Date end') \<and>
     truthy (pickupLocation b) = Some p \<and> truthy (dropoffLocation b) = Some q \<and>
     truthy (booking_status b) = Some status"
proof -
  note defs = updateBooking_def not_available_def
  obtain booking where 0: "findById (bookings db) i = Some booking"
    using assms by (cases "findById (bookings db) i") (auto simp: defs)
  obtain userId where 1: "truthy (user b) = Some userId"
    using assms 0 by (cases "truthy (user b)") (auto simp: defs)
  obtain carId where 2: "truthy (car b) = Some carId"
    using assms 0 1 by (cases "truthy (car b)") (auto simp: defs)
  obtain sd where 3: "startDate b = Some sd"
    using assms 0 1 2 by (cases "startDate b") (auto simp: defs)
  obtain ed where 4: "endDate b = Some ed"
    using assms 0 1 2 3 by (cases "endDate b") (auto simp: defs)
  obtain p where 5: "truthy (pickupLocation b) = Some p"
    using assms 0 1 2 3 4 by (cases "truthy (pickupLocation b)") (auto simp: defs)
  obtain q where 6: "truthy (dropoffLocation b) = Some q"
    using assms 0 1 2 3 4 5 by (cases "truthy (dropoffLocation b)") (auto simp: defs)
  obtain status where 7: "truthy (booking_status b) = Some status"
    using assms 0 1 2 3 4 5 6 by (cases "truthy (booking_status b)") (auto simp: defs)
  have "\<exists>start end'. sd = Date start \<and> ed = Date end'"
    using assms 0 1 2 3 4 5 6 7
    by (cases sd; cases ed) (auto simp: defs split: sum.splits dest!: check_resources_InlD)
  with 0 1 2 3 4 5 6 7 show ?thesis by blast
qed

lemma updateBooking_unfold:
  assumes "findById (bookings db) i = Some booking"
    and "truthy (user b) = Some userId" and "truthy (car b) = Some carId"
    and "startDate b = Some (Date start)" and "endDate b = Some (Date end')"
    and "truthy (pickupLocation b) = Some p" and "truthy (dropoffLocation b) = Some q"
    and "truthy (booking_status b) = Some status"
  shows "updateBooking db i b =
     (case check_resources db userId carId p q of
        Inl err \<Rightarrow> Inl err
      | Inr c \<Rightarrow>
          if start \<ge> end' then Inl (ErrorResponse ''Start date must be before end date'' 400)
          else if find_docs (overlap_query (VId i) carId start end') (bookings db) \<noteq> [] then
            Inl (not_available c)
          else
            (case Booking_findByIdAndUpdate (bookings db) i
                    [(''user'', VId userId), (''car'', VId carId),
                     (''startDate'', VDate start), (''endDate'', VDate end'),
                     (''pickup_location'', VId p), (''dropoff_location'', VId q),
                     (''booking_status'', VStr status),
                     (''total_cost'',
                        if total_cost b = Undefined \<or> total_cost b = Null \<or> total_cost b = EmptyString
                        then VNum (of_int (durationDays start end') * daily_rate c)
                        else parseFloat (total_cost b))] of
               Inl err \<Rightarrow> Inl err
             | Inr (docs, updated) \<Rightarrow> Inr (db\<lparr>bookings := docs\<rparr>, updated)))"
  by (simp add: updateBooking_def assms Let_def split: sum.splits)

lemma field_set_fields:
  "field (set_fields upd d) k = (case map_of (rev upd) k of None \<Rightarrow> field d k | Some v \<Rightarrow> Some v)"
proof (induction upd arbitrary: d)
  case Nil
  then show ?case by simp
next
  case (Cons kv upd)
  have "field (set_fields (kv # upd) d) k =
          (case map_of (rev upd) k of
             None \<Rightarrow> field (AList.update (fst kv) (snd kv) d) k
           | Some v \<Rightarrow> Some v)"
    by (simp add: Cons.IH)
  also have "\<dots> = (case map_of (rev (kv # upd)) k of None \<Rightarrow> field d k | Some v \<Rightarrow> Some v)"
    by (cases kv) (auto simp: field_def update_conv' map_add_def split: option.splits)
  finally show ?case .
qed





subsection \<open>The sign of the stored cost\<close>







subsection \<open>\<^verbatim>\<open>updateBooking\<close> and the booking under update\<close>

lemma matches_excludes_id:
  "matches d (overlap_query (VId i) carId start end') \<Longrightarrow> field d ''_id'' \<noteq> Some (VId i)"
  by (simp add: matches_def overlap_query_def matches_constraint_def)

lemma update_conflict_eval:
  "updateBooking
      (fleet\<lparr>bookings := [keyed ''b1'' 19792 19797 ''confirmed'', keyed ''b2'' 19794 19798 ''confirmed'']\<rparr>)
      ''b1'' (request (Some ''u1'') ''c1'' 19792 19797 Undefined (Some ''confirmed''))
   = Inl (not_available \<lparr>car_make = ''Chevrolet'', car_model = ''Bolt EV'', daily_rate = 50\<rparr>)"
  by (simp add: eval_defs)

lemma update_same_dates_eval:
  "updateBooking (fleet\<lparr>bookings := [keyed ''b1'' 19792 19797 ''confirmed'']\<rparr>)
      ''b1'' (request (Some ''u1'') ''c1'' 19792 19797 Undefined (Some ''confirmed''))
   = Inr (fleet\<lparr>bookings := [keyed ''b1'' 19792 19797 ''confirmed'']\<rparr>,
          Some (keyed ''b1'' 19792 19797 ''confirmed''))"
  by (simp add: eval_defs)

lemma create_query_matches_keyed:
  "find_docs (overlap_query VNull ''c1'' (day 19792) (day 19797)) [keyed ''b1'' 19792 19797 ''confirmed'']
   = [keyed ''b1'' 19792 19797 ''confirmed'']"
  by (simp add: eval_defs)

lemma update_query_on_two:
  "find_docs (overlap_query (VId ''b1'') ''c1'' (day 19792) (day 19797))
      [keyed ''b1'' 19792 19797 ''confirmed'', keyed ''b2'' 19794 19798 ''confirmed'']
   = [keyed ''b2'' 19794 19798 ''confirmed'']"
  by (simp add: eval_defs)

text \<open>
  Claim C9. The filter of \<^verbatim>\<open>updateBooking\<close> carries \<^verbatim>\<open>_id: { $ne: bookingId }\<close>: no document
  it returns has the id of the booking under update, whatever the collection holds.
  Hence whenever \<^verbatim>\<open>updateBooking\<close> answers that the car is not available, a document
  with another id matches the filter for the submitted car and dates; the booking under
  update is never the cause. The witness has a booking whose keys the filter reads:
  alone in the collection it is updated to its own dates without conflict, although the
  filter without the exclusion matches it.
\<close>

theorem updateBooking_excludes_itself:
  "(\<forall>d \<in> set (find_docs (overlap_query (VId i) carId start end') docs).
        field d ''_id'' \<noteq> Some (VId i))
   \<and> (updateBooking db i b = Inl (not_available c) \<longrightarrow>
        (\<exists>d cid s e. d \<in> set (bookings db) \<and> field d ''_id'' \<noteq> Some (VId i)
            \<and> truthy (car b) = Some cid \<and> startDate b = Some (Date s) \<and> endDate b = Some (Date e)
            \<and> matches d (overlap_query (VId i) cid s e)))"
proof (intro conjI ballI impI)
  fix d assume "d \<in> set (find_docs (overlap_query (VId i) carId start end') docs)"
  then have "matches d (overlap_query (VId i) carId start end')"
    by (simp add: find_docs_def)
  then show "field d ''_id'' \<noteq> Some (VId i)" by (rule matches_excludes_id)
next
  assume conflict: "updateBooking db i b = Inl (not_available c)"
  from updateBooking_fields [OF conflict] obtain booking userId cid s e p q status where
    f: "findById (bookings db) i = Some booking" "truthy (user b) = Some userId"
      "truthy (car b) = Some cid" "startDate b = Some (Date s)" "endDate b = Some (Date e)"
      "truthy (pickupLocation b) = Some p" "truthy (dropoffLocation b) = Some q"
      "truthy (booking_status b) = Some status"
    by blast
  note unf = updateBooking_unfold [OF f]
  have "find_docs (overlap_query (VId i) cid s e) (bookings db) \<noteq> []"
  proof (cases "check_resources db userId cid p q")
    case (Inl err)
    with check_resources_InlD [OF Inl] conflict show ?thesis
      by (auto simp: unf not_available_def)
  next
    case (Inr c')
    with conflict show ?thesis
      by (auto simp: unf not_available_def split: if_splits sum.splits
          simp: Booking_findByIdAndUpdate_def Let_def split: list.splits option.splits)
  qed
  then obtain d where "d \<in> set (find_docs (overlap_query (VId i) cid s e) (bookings db))"
    by (cases "find_docs (overlap_query (VId i) cid s e) (bookings db)") auto
  then have mem: "d \<in> set (bookings db)" and m: "matches d (overlap_query (VId i) cid s e)"
    by (simp_all add: find_docs_def)
  from matches_excludes_id [OF m] mem m f(3,4,5)
  show "\<exists>d cid s e. d \<in> set (bookings db) \<and> field d ''_id'' \<noteq> Some (VId i)
            \<and> truthy (car b) = Some cid \<and> startDate b = Some (Date s) \<and> endDate b = Some (Date e)
            \<and> matches d (overlap_query (VId i) cid s e)"
    by blast
qed

theorem updateBooking_excludes_itself_witness:
  "keyed ''b2'' 19794 19798 ''confirmed''
      \<in> set (find_docs (overlap_query (VId ''b1'') ''c1'' (day 19792) (day 19797))
           [keyed ''b1'' 19792 19797 ''confirmed'', keyed ''b2'' 19794 19798 ''confirmed''])
   \<and> field (keyed ''b2'' 19794 19798 ''confirmed'') ''_id'' \<noteq> Some (VId ''b1'')
   \<and> updateBooking
        (fleet\<lparr>bookings := [keyed ''b1'' 19792 19797 ''confirmed'', keyed ''b2'' 19794 19798 ''confirmed'']\<rparr>)
        ''b1'' (request (Some ''u1'') ''c1'' 19792 19797 Undefined (Some ''confirmed''))
       = Inl (not_available \<lparr>car_make = ''Chevrolet'', car_model = ''Bolt EV'', daily_rate = 50\<rparr>)
   \<and> (\<exists>d. d \<in> set [keyed ''b1'' 19792 19797 ''confirmed'', keyed ''b2'' 19794 19798 ''confirmed'']
          \<and> field d ''_id'' \<noteq> Some (VId ''b1'')
          \<and> matches d (overlap_query (VId ''b1'') ''c1'' (day 19792) (day 19797)))
   \<and> find_docs (overlap_query VNull ''c1'' (day 19792) (day 19797)) [keyed ''b1'' 19792 19797 ''confirmed'']
       = [keyed ''b1'' 19792 19797 ''confirmed'']
   \<and> updateBooking (fleet\<lparr>bookings := [keyed ''b1'' 19792 19797 ''confirmed'']\<rparr>)
        ''b1'' (request (Some ''u1'') ''c1'' 19792 19797 Undefined (Some ''confirmed''))
       = Inr (fleet\<lparr>bookings := [keyed ''b1'' 19792 19797 ''confirmed'']\<rparr>,
              Some (keyed ''b1'' 19792 19797 ''confirmed''))"
proof -
  let ?docs = "[keyed ''b1'' 19792 19797 ''confirmed'', keyed ''b2'' 19794 19798 ''confirmed'']"
  let ?b = "request (Some ''u1'') ''c1'' 19792 19797 Undefined (Some ''confirmed'')"
  note inst = updateBooking_excludes_itself [where i = "''b1''" and carId = "''c1''"
      and start = "day 19792" and end' = "day 19797" and docs = ?docs
      and db = "fleet\<lparr>bookings := ?docs\<rparr>" and b = ?b
      and c = "\<lparr>car_make = ''Chevrolet'', car_model = ''Bolt EV'', daily_rate = 50\<rparr>"]
  have mem: "keyed ''b2'' 19794 19798 ''confirmed''
      \<in> set (find_docs (overlap_query (VId ''b1'') ''c1'' (day 19792) (day 19797)) ?docs)"
    by (simp add: update_query_on_two)
  from inst mem have a: "field (keyed ''b2'' 19794 19798 ''confirmed'') ''_id'' \<noteq> Some (VId ''b1'')"
    by blast
  from inst update_conflict_eval obtain d cid s e where
    d: "d \<in> set (bookings (fleet\<lparr>bookings := ?docs\<rparr>))" "field d ''_id'' \<noteq> Some (VId ''b1'')"
      "truthy (car ?b) = Some cid" "startDate ?b = Some (Date s)" "endDate ?b = Some (Date e)"
      "matches d (overlap_query (VId ''b1'') cid s e)"
    by blast
  from d(3,4,5) have "cid = ''c1''" "s = day 19792" "e = day 19797"
    by (simp_all add: request_def)
  with d have b: "\<exists>d. d \<in> set ?docs \<and> field d ''_id'' \<noteq> Some (VId ''b1'')
          \<and> matches d (overlap_query (VId ''b1'') ''c1'' (day 19792) (day 19797))"
    by auto
  from mem a b update_conflict_eval create_query_matches_keyed update_same_dates_eval
  show ?thesis by blast
qed

subsection \<open>Payment confirmation\<close>

lemma usable_typed: "is_id v \<or> is_date v \<or> is_num v \<Longrightarrow> \<not> unusable v"
proof (cases v)
  case None
  then show "is_id v \<or> is_date v \<or> is_num v \<Longrightarrow> \<not> unusable v" by simp
next
  case (Some a)
  then show "is_id v \<or> is_date v \<or> is_num v \<Longrightarrow> \<not> unusable v" by (cases a) simp_all
qed

lemma is_status_cases:
  assumes "is_status v"
  obtains st where "v = Some (VStr st)" and "st \<in> set booking_status_enum"
proof (cases v)
  case None
  with assms show ?thesis by simp
next
  case (Some a)
  with assms that show ?thesis by (cases a) simp_all
qed

lemma conforms_confirmed:
  assumes "conforms d"
  shows "invalid_paths (AList.update ''booking_status'' (VStr ''confirmed'') d) = []"
proof -
  let ?d = "AList.update ''booking_status'' (VStr ''confirmed'') d"
  have same: "\<And>k. k \<noteq> ''booking_status'' \<Longrightarrow> field ?d k = field d k"
    by (simp add: field_def update_conv')
  have st: "field ?d ''booking_status'' = Some (VStr ''confirmed'')"
    by (simp add: field_def update_conv')
  from assms have "\<not> unusable (field d ''user'')" "\<not> unusable (field d ''car'')"
    "\<not> unusable (field d ''start_date'')" "\<not> unusable (field d ''end_date'')"
    "\<not> unusable (field d ''total_cost'')" "\<not> unusable (field d ''pickup_location'')"
    "\<not> unusable (field d ''dropoff_location'')"
    by (simp_all add: conforms_def usable_typed)
  then show ?thesis
    by (simp add: invalid_paths_def required_paths_def same st booking_status_enum_def)
qed

lemma find_replace_doc:
  assumes "findById docs i = Some d" and "has_id i d'"
  shows "findById (replace_doc i d' docs) i = Some d'"
  using assms by (induction docs) (auto simp: findById_def replace_doc_def)

lemma findById_has_id: "findById docs i = Some d \<Longrightarrow> has_id i d"
  by (auto simp: findById_def find_Some_iff)

text \<open>
  Claim C5. For a stored booking that fits the schema and a caller who owns it or is an
  administrator: when the status is \<^verbatim>\<open>pending_payment\<close>, \<^verbatim>\<open>confirmBookingPayment\<close>
  succeeds, the stored booking has status \<^verbatim>\<open>confirmed\<close> and is otherwise as it was;
  for any other status it answers 400 with a message that quotes the status, and the
  collection is unchanged.
\<close>

theorem confirmBookingPayment_by_status:
  assumes found: "findById (bookings db) bookingId = Some booking"
    and ok: "conforms booking"
    and auth: "field booking ''user'' = Some (VId (user_id u)) \<or> role u = ''admin''"
  shows "if field booking ''booking_status'' = Some (VStr ''pending_payment'')
         then \<exists>db' d. confirmBookingPayment db u bookingId = Inr (db', d)
                \<and> field d ''booking_status'' = Some (VStr ''confirmed'')
                \<and> (\<forall>k. k = ''booking_status'' \<or> field d k = field booking k)
                \<and> findById (bookings db') bookingId = Some d
                \<and> bookings db' = replace_doc bookingId d (bookings db)
         else \<exists>st. field booking ''booking_status'' = Some (VStr st)
                \<and> confirmBookingPayment db u bookingId =
                    Inl (ErrorResponse
                          (''Booking status is already '' @ [CHR 0x27] @ st @ [CHR 0x27]
                            @ '', cannot confirm payment.'') 400)
                \<and> bookings_after db (confirmBookingPayment db u bookingId) = bookings db"
proof -
  from ok have "is_id (field booking ''user'')" by (simp add: conforms_def)
  then obtain owner where owner: "field booking ''user'' = Some owner"
    by (cases "field booking ''user''") simp_all
  with auth have authd: "\<not> (owner \<noteq> VId (user_id u) \<and> role u \<noteq> ''admin'')" by auto
  from ok have "is_status (field booking ''booking_status'')" by (simp add: conforms_def)
  then obtain st where st: "field booking ''booking_status'' = Some (VStr st)"
    by (rule is_status_cases)
  show ?thesis
  proof (cases "st = ''pending_payment''")
    case True
    let ?d = "AList.update ''booking_status'' (VStr ''confirmed'') booking"
    have r: "confirmBookingPayment db u bookingId
              = Inr (db\<lparr>bookings := replace_doc bookingId ?d (bookings db)\<rparr>, ?d)"
      using authd
      by (simp add: confirmBookingPayment_def found owner st True Booking_save_def
          conforms_confirmed [OF ok] Let_def)
    have "has_id bookingId ?d"
      using findById_has_id [OF found] by (simp add: has_id_def field_def update_conv')
    then have f: "findById (replace_doc bookingId ?d (bookings db)) bookingId = Some ?d"
      by (rule find_replace_doc [OF found])
    have s: "field ?d ''booking_status'' = Some (VStr ''confirmed'')"
      by (simp add: field_def update_conv')
    have k: "\<forall>k. k = ''booking_status'' \<or> field ?d k = field booking k"
      by (simp add: field_def update_conv')
    from r f s k st True show ?thesis by simp
  next
    case False
    have r: "confirmBookingPayment db u bookingId =
              Inl (ErrorResponse
                    (''Booking status is already '' @ [CHR 0x27] @ st @ [CHR 0x27]
                      @ '', cannot confirm payment.'') 400)"
      using authd False
      by (simp add: confirmBookingPayment_def found owner st cannot_confirm_def)
    then have "bookings_after db (confirmBookingPayment db u bookingId) = bookings db"
      by (simp add: bookings_after_def)
    with r st False show ?thesis by simp
  qed
qed

lemma stored_conforms: "st \<in> set booking_status_enum \<Longrightarrow> conforms (stored i s e cost st)"
  by (simp add: conforms_def stored_def field_def)

theorem confirmBookingPayment_by_status_witness:
  "findById [stored ''b1'' 19723 19725 100 ''pending_payment''] ''b1''
      = Some (stored ''b1'' 19723 19725 100 ''pending_payment'')
   \<and> conforms (stored ''b1'' 19723 19725 100 ''pending_payment'')
   \<and> field (stored ''b1'' 19723 19725 100 ''pending_payment'') ''user'' = Some (VId (user_id customer))
   \<and> confirmBookingPayment (fleet\<lparr>bookings := [stored ''b1'' 19723 19725 100 ''pending_payment'']\<rparr>)
        customer ''b1''
      = Inr (fleet\<lparr>bookings := [stored ''b1'' 19723 19725 100 ''confirmed'']\<rparr>,
             stored ''b1'' 19723 19725 100 ''confirmed'')
   \<and> findById [stored ''b1'' 19723 19725 100 ''confirmed''] ''b1''
      = Some (stored ''b1'' 19723 19725 100 ''confirmed'')
   \<and> conforms (stored ''b1'' 19723 19725 100 ''confirmed'')
   \<and> confirmBookingPayment (fleet\<lparr>bookings := [stored ''b1'' 19723 19725 100 ''confirmed'']\<rparr>)
        customer ''b1''
      = Inl (ErrorResponse
              (''Booking status is already '' @ [CHR 0x27] @ ''confirmed'' @ [CHR 0x27]
                @ '', cannot confirm payment.'') 400)"
proof -
  let ?p = "stored ''b1'' 19723 19725 100 ''pending_payment''"
  let ?c = "stored ''b1'' 19723 19725 100 ''confirmed''"
  have fp: "findById (bookings (fleet\<lparr>bookings := [?p]\<rparr>)) ''b1'' = Some ?p"
    and fc: "findById (bookings (fleet\<lparr>bookings := [?c]\<rparr>)) ''b1'' = Some ?c"
    by (simp_all add: findById_def has_id_def stored_def field_def)
  have cp: "conforms ?p" and cc: "conforms ?c"
    by (simp_all add: stored_conforms booking_status_enum_def)
  have ap: "field ?p ''user'' = Some (VId (user_id customer)) \<or> role customer = ''admin''"
    and ac: "field ?c ''user'' = Some (VId (user_id customer)) \<or> role customer = ''admin''"
    by (simp_all add: stored_def field_def customer_def)
  have sp: "field ?p ''booking_status'' = Some (VStr ''pending_payment'')"
    and sc: "field ?c ''booking_status'' = Some (VStr ''confirmed'')"
    by (simp_all add: stored_def field_def)
  from confirmBookingPayment_by_status [OF fc cc ac] sc
  have e: "confirmBookingPayment (fleet\<lparr>bookings := [?c]\<rparr>) customer ''b1''
      = Inl (ErrorResponse
              (''Booking status is already '' @ [CHR 0x27] @ ''confirmed'' @ [CHR 0x27]
                @ '', cannot confirm payment.'') 400)"
    by simp
  from confirmBookingPayment_by_status [OF fp cp ap] sp
  obtain db' d where "confirmBookingPayment (fleet\<lparr>bookings := [?p]\<rparr>) customer ''b1'' = Inr (db', d)"
    by auto
  moreover have "confirmBookingPayment (fleet\<lparr>bookings := [?p]\<rparr>) customer ''b1''
      = Inr (fleet\<lparr>bookings := [?c]\<rparr>, ?c)"
    by (simp add: eval_defs)
  ultimately show ?thesis using fp fc cp cc ap e by (simp add: customer_def)
qed

section \<open>Where the code departs from the specification\<close>

subsection \<open>Two confirmed bookings of one car over overlapping days\<close>

lemma create_second_confirmed_eval:
  "createBooking (at_2023_12_09 ''b2'')
      (fleet\<lparr>bookings := [stored ''b1'' 19792 19797 250 ''confirmed'']\<rparr>) admin
      (request (Some ''u1'') ''c1'' 19794 19798 Undefined (Some ''confirmed''))
   = Inr (fleet\<lparr>bookings := [stored ''b1'' 19792 19797 250 ''confirmed'',
                                 stored ''b2'' 19794 19798 200 ''confirmed'']\<rparr>,
          stored ''b2'' 19794 19798 200 ''confirmed'')"
  by (simp add: eval_defs)

lemma create_over_confirmed_eval:
  "createBooking (at_2023_12_09 ''b2'')
      (fleet\<lparr>bookings := [stored ''b1'' 19792 19797 250 ''confirmed'']\<rparr>) customer
      (request None ''c1'' 19794 19798 Undefined None)
   = Inr (fleet\<lparr>bookings := [stored ''b1'' 19792 19797 250 ''confirmed'',
                                 stored ''b2'' 19794 19798 200 ''pending_payment'']\<rparr>,
          stored ''b2'' 19794 19798 200 ''pending_payment'')"
  by (simp add: eval_defs)

lemma create_adjacent_eval:
  "createBooking (at_2023_12_09 ''b2'')
      (fleet\<lparr>bookings := [stored ''b1'' 19792 19797 250 ''confirmed'']\<rparr>) customer
      (request None ''c1'' 19797 19800 Undefined None)
   = Inr (fleet\<lparr>bookings := [stored ''b1'' 19792 19797 250 ''confirmed'',
                                 stored ''b2'' 19797 19800 150 ''pending_payment'']\<rparr>,
          stored ''b2'' 19797 19800 150 ''pending_payment'')"
  by (simp add: eval_defs)

text \<open>
  Claim C1 fails on the code. An administrator creates a confirmed booking of car
  \<^verbatim>\<open>c1\<close> from 2024-03-10 to 2024-03-15, then a second confirmed booking of the same car
  from 2024-03-12 to 2024-03-16. Both calls succeed, and the collection, which had no
  double booking before, has one after.
\<close>

theorem two_creates_double_book:
  "createBooking (at_2023_12_09 ''b1'') fleet admin
      (request (Some ''u1'') ''c1'' 19792 19797 Undefined (Some ''confirmed''))
   = Inr (fleet\<lparr>bookings := [stored ''b1'' 19792 19797 250 ''confirmed'']\<rparr>,
          stored ''b1'' 19792 19797 250 ''confirmed'')
   \<and> createBooking (at_2023_12_09 ''b2'')
        (fleet\<lparr>bookings := [stored ''b1'' 19792 19797 250 ''confirmed'']\<rparr>) admin
        (request (Some ''u1'') ''c1'' 19794 19798 Undefined (Some ''confirmed''))
     = Inr (fleet\<lparr>bookings := [stored ''b1'' 19792 19797 250 ''confirmed'',
                                   stored ''b2'' 19794 19798 200 ''confirmed'']\<rparr>,
            stored ''b2'' 19794 19798 200 ''confirmed'')
   \<and> no_double_booking (bookings fleet)
   \<and> no_double_booking [stored ''b1'' 19792 19797 250 ''confirmed'']
   \<and> \<not> no_double_booking [stored ''b1'' 19792 19797 250 ''confirmed'',
                             stored ''b2'' 19794 19798 200 ''confirmed'']"
proof -
  have "\<not> compatible (stored ''b1'' 19792 19797 250 ''confirmed'')
                      (stored ''b2'' 19794 19798 200 ''confirmed'')"
    by (simp add: compatible_def blocking_def disjoint_ranges_def stored_def field_def day_def)
  then have "\<not> no_double_booking [stored ''b1'' 19792 19797 250 ''confirmed'',
                             stored ''b2'' 19794 19798 200 ''confirmed'']"
    by simp
  moreover have "no_double_booking (bookings fleet)" by (simp add: fleet_def)
  ultimately show ?thesis
    using create_confirmed_eval create_second_confirmed_eval by simp
qed

text \<open>
  Claim C2 fails on the code. With the confirmed booking of car \<^verbatim>\<open>c1\<close> from 2024-03-10
  to 2024-03-15 that \<^verbatim>\<open>createBooking\<close> has written, the availability query for
  2024-03-12 to 2024-03-16 finds nothing, although the ranges overlap, and the create
  succeeds. (The adjacent request, 2024-03-15 to 2024-03-18, succeeds as the claim says.)
\<close>

theorem overlapping_create_is_admitted:
  "half_open_overlap (day 19792) (day 19797) (day 19794) (day 19798)
   \<and> blocking (stored ''b1'' 19792 19797 250 ''confirmed'')
   \<and> find_docs (overlap_query VNull ''c1'' (day 19794) (day 19798))
        [stored ''b1'' 19792 19797 250 ''confirmed''] = []
   \<and> createBooking (at_2023_12_09 ''b2'')
        (fleet\<lparr>bookings := [stored ''b1'' 19792 19797 250 ''confirmed'']\<rparr>) customer
        (request None ''c1'' 19794 19798 Undefined None)
     = Inr (fleet\<lparr>bookings := [stored ''b1'' 19792 19797 250 ''confirmed'',
                                   stored ''b2'' 19794 19798 200 ''pending_payment'']\<rparr>,
            stored ''b2'' 19794 19798 200 ''pending_payment'')
   \<and> createBooking (at_2023_12_09 ''b2'')
        (fleet\<lparr>bookings := [stored ''b1'' 19792 19797 250 ''confirmed'']\<rparr>) customer
        (request None ''c1'' 19797 19800 Undefined None)
     = Inr (fleet\<lparr>bookings := [stored ''b1'' 19792 19797 250 ''confirmed'',
                                   stored ''b2'' 19797 19800 150 ''pending_payment'']\<rparr>,
            stored ''b2'' 19797 19800 150 ''pending_payment'')"
proof -
  have "half_open_overlap (day 19792) (day 19797) (day 19794) (day 19798)"
    by (simp add: half_open_overlap_def day_def)
  moreover have "blocking (stored ''b1'' 19792 19797 250 ''confirmed'')"
    by (simp add: blocking_def stored_def field_def)
  moreover have "find_docs (overlap_query VNull ''c1'' (day 19794) (day 19798))
        [stored ''b1'' 19792 19797 250 ''confirmed''] = []"
    by (simp add: eval_defs)
  ultimately show ?thesis
    using create_over_confirmed_eval create_adjacent_eval by simp
qed

subsection \<open>Self-service cancellation\<close>

text \<open>
  Claim C4 fails on the code. The account page sends
  \<^verbatim>\<open>PUT /bookings/<id>/cancel\<close> (\<^verbatim>\<open>handleUserCancelBooking\<close>); the router has no route for
  that path under any method, so the request reaches no controller and the store is as
  it was: a confirmed booking stays confirmed.
\<close>

theorem cancel_request_has_no_route:
  "bookings_router m [bookingId, ''cancel''] = None
   \<and> store_after env db u m [bookingId, ''cancel''] b = db"
  by (simp add: store_after_def lower_char_def)

text \<open>
  No other request of a caller who is not an administrator cancels a booking either:
  whatever the method, path and body, a booking in the store after the request was
  there before, or its status is not \<^verbatim>\<open>cancelled\<close>.
\<close>

lemma router_admin_only:
  assumes "bookings_router m path = Some (Route h a p)"
  shows "h = CreateBooking \<or> h = GetBookings \<or> h = GetBooking
         \<or> (h = ConfirmBookingPayment \<and> p \<noteq> None) \<or> a"
  using assms by (auto elim!: bookings_router.elims split: if_splits)

lemma confirmBookingPayment_InrD:
  assumes "confirmBookingPayment db u i = Inr (db', d)"
  shows "field d ''booking_status'' = Some (VStr ''confirmed'')
         \<and> bookings db' = replace_doc i d (bookings db)"
  using assms
  by (auto simp: confirmBookingPayment_def Booking_save_def Let_def field_def update_conv'
      split: option.splits if_splits list.splits)

lemma replace_doc_set: "x \<in> set (replace_doc i d docs) \<Longrightarrow> x = d \<or> x \<in> set docs"
  by (auto simp: replace_doc_def split: if_splits)

lemma owner_request_never_cancels:
  assumes customer: "role u \<noteq> ''admin''"
    and mem: "d \<in> set (bookings (store_after env db u m path b))"
  shows "d \<in> set (bookings db) \<or> field d ''booking_status'' \<noteq> Some (VStr ''cancelled'')"
proof (cases "bookings_router m path")
  case None
  with mem show ?thesis by (simp add: store_after_def)
next
  case (Some r)
  obtain h a p where r: "r = Route h a p" by (cases r)
  note route = router_admin_only [OF Some [unfolded r]]
  show ?thesis
  proof (cases a)
    case True
    with mem customer show ?thesis by (simp add: store_after_def Some r)
  next
    case False
    with route consider "h = CreateBooking" | "h = GetBookings" | "h = GetBooking"
      | i where "h = ConfirmBookingPayment" "p = Some i"
      by auto
    then show ?thesis
    proof cases
      case 1
      show ?thesis
      proof (cases "createBooking env db u b")
        case (Inl err)
        with mem show ?thesis by (simp add: store_after_def Some r 1 False)
      next
        case (Inr res)
        obtain db' d' where res: "res = (db', d')" by (cases res)
        from createBooking_InrD [OF Inr [unfolded res]] customer
        have "field d' ''booking_status'' = Some (VStr ''pending_payment'')"
          and "bookings db' = bookings db @ [d']"
          by (auto simp: field_def)
        moreover from mem have "d \<in> set (bookings db')"
          by (simp add: store_after_def Some r 1 False Inr res)
        ultimately show ?thesis by auto
      qed
    next
      case 2
      with mem show ?thesis by (simp add: store_after_def Some r False)
    next
      case 3
      with mem show ?thesis by (cases p) (simp_all add: store_after_def Some r False)
    next
      case 4
      show ?thesis
      proof (cases "confirmBookingPayment db u i")
        case (Inl err)
        with mem show ?thesis by (simp add: store_after_def Some r 4 False)
      next
        case (Inr res)
        obtain db' d' where res: "res = (db', d')" by (cases res)
        from confirmBookingPayment_InrD [OF Inr [unfolded res]]
        have s: "field d' ''booking_status'' = Some (VStr ''confirmed'')"
          and docs: "bookings db' = replace_doc i d' (bookings db)" by simp_all
        from mem have "d \<in> set (bookings db')"
          by (simp add: store_after_def Some r 4 False Inr res)
        with docs replace_doc_set [of d i d' "bookings db"] have "d = d' \<or> d \<in> set (bookings db)"
          by simp
        with s show ?thesis by auto
      qed
    qed
  qed
qed

end
